theory Spec2Isabelle
  imports Main "HOL-Library.Word" "HOL-Library.List_Lexorder"
begin

section \<open>Data model of the mirrored state\<close>

text \<open>
  A JavaScript string is the sequence of its UTF-16 code units. The strings that serve
  as property keys or are compared by order (the names of animations, the directions of
  sequences) are modelled so; \<^verbatim>\<open><\<close> on them is the lexicographic order of the code
  units. Strings that are only tested for equality (paths, key names, tag names) are of
  type \<^typ>\<open>string\<close>. \<^verbatim>\<open>js\<close> gives the code units of an ASCII literal.
\<close>

type_synonym js_string = "16 word list"

definition js :: "string \<Rightarrow> js_string" where
  "js s = map of_char s"

text \<open>
  Modelled from the spec: the type declarations of \<^verbatim>\<open>@/api/dto\<close> (\<^verbatim>\<open>AppState\<close>,
  \<^verbatim>\<open>Document\<close>, \<^verbatim>\<open>Animation\<close>, \<^verbatim>\<open>Sequence\<close>, \<^verbatim>\<open>Keyframe\<close>, \<^verbatim>\<open>Frame\<close>, \<^verbatim>\<open>Hitbox\<close>), which
  are not among the sources. The records carry the fields that the store
  (\<^verbatim>\<open>defineStore("app", ...)\<close>), its getters and the keyboard handler read, with the types
  of the data model.

  \<^item> A JavaScript object used as a dictionary (\<^verbatim>\<open>sheet.animations\<close>,
    \<^verbatim>\<open>animation.sequences\<close>) is the association list of its own properties in their
    enumeration order.
  \<^item> \<^verbatim>\<open>null\<close> and \<^verbatim>\<open>undefined\<close> are both \<^const>\<open>None\<close>: the getters only test them
    for truthiness or compare them with \<^verbatim>\<open>!= null\<close>, which does not tell them apart.
  \<^item> The current error is an object, so it is truthy exactly when it is present; the
    three markers of a document that the Escape key consults are flags.
\<close>

record Hitbox =
  selected :: bool

record Keyframe =
  frame :: string
  hitboxes :: "Hitbox list"
  selected :: bool

record Sequence =
  keyframes :: "Keyframe list"

record Animation =
  name :: js_string
  selected :: bool
  sequences :: "(js_string \<times> Sequence) list"

record Frame =
  path :: string
  selected :: bool

record Sheet =
  frames :: "Frame list"
  animations :: "(js_string \<times> Animation) list"

record Document =
  path :: string
  sheet :: Sheet
  currentAnimationName :: "js_string option"
  currentSequenceDirection :: "js_string option"
  currentKeyframeIndex :: "int option"
  timelineIsPlaying :: bool
  wasCloseRequested :: bool
  framesBeingRelocated :: bool
  exportSettingsBeingEdited :: bool

record UserFacingError =
  summary :: string

record AppState =
  documents :: "Document list"
  currentDocumentPath :: "string option"
  recentDocumentPaths :: "string list"
  clipboardManifest :: "string option"
  isReleaseBuild :: bool
  error :: "UserFacingError option"

section \<open>JavaScript primitives used by the getters\<close>

text \<open>A getter that dereferences \<^verbatim>\<open>undefined\<close> ends with a \<^verbatim>\<open>TypeError\<close>.\<close>

datatype js_error = TypeError


text \<open>
  \<^verbatim>\<open>obj[key]\<close> on a dictionary object. An own property gives its value. A key that is not
  an own property is looked up in \<^verbatim>\<open>Object.prototype\<close>: when it names one of its members
  the read gives that member, a function or object that is truthy and is not of the type
  of the values; otherwise it gives \<^verbatim>\<open>undefined\<close>.
\<close>

definition Object_prototype_members :: "js_string list" where
  "Object_prototype_members =
     map js [''constructor'', ''hasOwnProperty'', ''isPrototypeOf'', ''propertyIsEnumerable'',
             ''toLocaleString'', ''toString'', ''valueOf'', ''__proto__'',
             ''__defineGetter__'', ''__defineSetter__'', ''__lookupGetter__'',
             ''__lookupSetter__'']"

datatype 'v lookup = Found 'v | Prototype_member | Absent

definition property_get :: "(js_string \<times> 'v) list \<Rightarrow> js_string \<Rightarrow> 'v lookup" where
  "property_get obj key =
     (case map_of obj key of
        Some v \<Rightarrow> Found v
      | None \<Rightarrow> if key \<in> set Object_prototype_members then Prototype_member else Absent)"

text \<open>
  \<^verbatim>\<open>xs[i]\<close> on an array: the element when the index is in range, \<^verbatim>\<open>undefined\<close> otherwise.
\<close>

definition array_get :: "'a list \<Rightarrow> int \<Rightarrow> 'a option" where
  "array_get xs i = (if 0 \<le> i \<and> i < int (length xs) then Some (xs ! nat i) else None)"


text \<open>A string is truthy when it is not empty.\<close>

definition truthy_string :: "'c list option \<Rightarrow> 'c list option" where
  "truthy_string r = (case r of None \<Rightarrow> None | Some s \<Rightarrow> if s = [] then None else Some s)"


section \<open>The getters of the store\<close>

text \<open>
  A getter that can end with an exception returns a sum, the exception on the left.
  \<^verbatim>\<open>currentAnimation\<close> and \<^verbatim>\<open>currentSequence\<close> return what the property read gives them,
  which for a dangling key that names a member of \<^verbatim>\<open>Object.prototype\<close> is that member;
  reading \<^verbatim>\<open>sequences\<close> or \<^verbatim>\<open>keyframes\<close> of such a member gives \<^verbatim>\<open>undefined\<close>, and the
  getter that goes on to use it throws.
\<close>

definition currentDocument :: "AppState \<Rightarrow> Document option" where
  "currentDocument state =
     find (\<lambda>document. Some (Document.path document) = currentDocumentPath state)
       (documents state)"


definition currentAnimation :: "AppState \<Rightarrow> Animation lookup" where
  "currentAnimation state =
     (case currentDocument state of
        None \<Rightarrow> Absent
      | Some document \<Rightarrow>
          (case truthy_string (currentAnimationName document) of
             None \<Rightarrow> Absent
           | Some n \<Rightarrow> property_get (animations (sheet document)) n))"

text \<open>
  \<^verbatim>\<open>this.currentDocument?.currentSequenceDirection\<close> as a condition, and then as the key.
\<close>

definition current_direction :: "AppState \<Rightarrow> js_string option" where
  "current_direction state =
     (case currentDocument state of
        None \<Rightarrow> None
      | Some document \<Rightarrow> truthy_string (currentSequenceDirection document))"

definition currentSequence :: "AppState \<Rightarrow> js_error + Sequence lookup" where
  "currentSequence state =
     (case currentAnimation state of
        Absent \<Rightarrow> Inr Absent
      | Found animation \<Rightarrow>
          (case current_direction state of
             None \<Rightarrow> Inr Absent
           | Some direction \<Rightarrow> Inr (property_get (sequences animation) direction))
      | Prototype_member \<Rightarrow>
          (case current_direction state of
             None \<Rightarrow> Inr Absent
           | Some direction \<Rightarrow> Inl TypeError))"

text \<open>\<^verbatim>\<open>this.currentDocument?.currentKeyframeIndex\<close>, compared with \<^verbatim>\<open>!= null\<close>.\<close>

definition current_index :: "AppState \<Rightarrow> int option" where
  "current_index state =
     (case currentDocument state of
        None \<Rightarrow> None
      | Some document \<Rightarrow> currentKeyframeIndex document)"

definition currentKeyframe :: "AppState \<Rightarrow> js_error + Keyframe option" where
  "currentKeyframe state =
     (case currentSequence state of
        Inl e \<Rightarrow> Inl e
      | Inr Absent \<Rightarrow> Inr None
      | Inr (Found sequence) \<Rightarrow>
          (case current_index state of
             None \<Rightarrow> Inr None
           | Some i \<Rightarrow> Inr (array_get (keyframes sequence) i))
      | Inr Prototype_member \<Rightarrow>
          (case current_index state of
             None \<Rightarrow> Inr None
           | Some i \<Rightarrow> Inl TypeError))"







section \<open>The keyboard handler\<close>

text \<open>
  \<^verbatim>\<open>onKeyDown\<close> reads the key event, the focused element (\<^verbatim>\<open>document.activeElement\<close>)
  and the store, and calls at most one function of the backend API. The model returns
  the calls it makes and whether it called \<^verbatim>\<open>event.preventDefault()\<close>. The first
  statement reads \<^verbatim>\<open>tabIndex\<close> of the focused element without a null check, so without
  a focused element the handler ends with a \<^verbatim>\<open>TypeError\<close> before anything else.

  Of the store the handler reads \<^verbatim>\<open>error\<close>, \<^verbatim>\<open>currentDocumentPath\<close> and the getter
  \<^verbatim>\<open>currentDocument\<close>; they are those of the store above.
\<close>

datatype NudgeDirection = Up | Down | Left | Right

datatype BrowseDirection = Up | Down | Left | Right

datatype api_call =
    newDocument | openDocuments | saveAll | save | saveAs "string option"
  | doExport | beginExportAs | closeCurrentDocument | closeAllDocuments
  | undo | redo | cut | copy | paste
  | centerWorkbench | zoomInTimeline | zoomInWorkbench | zoomOutTimeline | zoomOutWorkbench
  | resetTimelineZoom | resetWorkbenchZoom | selectAll
  | nudgeSelection NudgeDirection bool
  | pause | play | deleteSelection
  | browseSelection BrowseDirection bool | browseToStart bool | browseToEnd bool
  | beginRenameSelection
  | acknowledgeError | cancelExit | cancelRelocateFrames | cancelExportAs

record KeyboardEvent =
  key :: string
  ctrlKey :: bool
  altKey :: bool
  shiftKey :: bool

record Element =
  tagName :: string
  tabIndex :: int

record handled =
  calls :: "api_call list"
  defaultPrevented :: bool

definition nothing :: handled where
  "nothing = \<lparr>calls = [], defaultPrevented = False\<rparr>"

definition call :: "api_call \<Rightarrow> handled" where
  "call c = \<lparr>calls = [c], defaultPrevented = False\<rparr>"

definition preventDefault :: "handled \<Rightarrow> handled" where
  "preventDefault h = h\<lparr>defaultPrevented := True\<rparr>"

text \<open>\<^verbatim>\<open>state.currentDocument?.flag\<close> as a condition: false without a current document.\<close>

definition document_flag :: "(Document \<Rightarrow> bool) \<Rightarrow> AppState \<Rightarrow> bool" where
  "document_flag flag state =
     (case currentDocument state of None \<Rightarrow> False | Some document \<Rightarrow> flag document)"

text \<open>The branch \<^verbatim>\<open>if (event.ctrlKey) { ... }\<close>.\<close>

definition onKeyDown_ctrl :: "AppState \<Rightarrow> KeyboardEvent \<Rightarrow> handled" where
  "onKeyDown_ctrl state event =
    (if key event = ''n'' then call newDocument
     else if key event = ''o'' then call openDocuments
     else if key event = ''s'' then (if altKey event then call saveAll else call save)
     else if key event = ''S'' then preventDefault (call (saveAs (currentDocumentPath state)))
     else if key event = ''e'' then call doExport
     else if key event = ''E'' then preventDefault (call beginExportAs)
     else if key event = ''w'' then call closeCurrentDocument
     else if key event = ''W'' then call closeAllDocuments
     else if key event = ''z'' then preventDefault (call undo)
     else if key event = ''Z'' then preventDefault (call redo)
     else if key event = ''x'' then call cut
     else if key event = ''c'' then call copy
     else if key event = ''v'' then call paste
     else if key event = '' '' then call centerWorkbench
     else if key event = ''+'' \<or> key event = ''='' then
       (if altKey event then call zoomInTimeline else call zoomInWorkbench)
     else if key event = ''-'' then
       (if altKey event then call zoomOutTimeline else call zoomOutWorkbench)
     else if key event = ''0'' then
       (if altKey event then call resetTimelineZoom else call resetWorkbenchZoom)
     else if key event = ''a'' then call selectAll
     else if key event = ''ArrowUp'' then
       call (nudgeSelection NudgeDirection.Up (shiftKey event))
     else if key event = ''ArrowDown'' then
       call (nudgeSelection NudgeDirection.Down (shiftKey event))
     else if key event = ''ArrowLeft'' then
       call (nudgeSelection NudgeDirection.Left (shiftKey event))
     else if key event = ''ArrowRight'' then
       call (nudgeSelection NudgeDirection.Right (shiftKey event))
     else nothing)"

text \<open>The branch \<^verbatim>\<open>else { ... }\<close>, without the control key.\<close>

definition onKeyDown_plain :: "bool \<Rightarrow> AppState \<Rightarrow> KeyboardEvent \<Rightarrow> handled" where
  "onKeyDown_plain isActiveElementKeyboardFriendly state event =
    (if key event = '' '' then
       (if \<not> isActiveElementKeyboardFriendly then
          preventDefault
            (if document_flag timelineIsPlaying state then call pause else call play)
        else nothing)
     else if key event = ''Delete'' then call deleteSelection
     else if key event = ''ArrowUp'' then
       preventDefault (call (browseSelection BrowseDirection.Up (shiftKey event)))
     else if key event = ''ArrowDown'' then
       preventDefault (call (browseSelection BrowseDirection.Down (shiftKey event)))
     else if key event = ''ArrowLeft'' then
       preventDefault (call (browseSelection BrowseDirection.Left (shiftKey event)))
     else if key event = ''ArrowRight'' then
       preventDefault (call (browseSelection BrowseDirection.Right (shiftKey event)))
     else if key event = ''Home'' then call (browseToStart (shiftKey event))
     else if key event = ''End'' then call (browseToEnd (shiftKey event))
     else if key event = ''F2'' then call beginRenameSelection
     else if key event = ''Enter'' then
       (if \<not> isActiveElementKeyboardFriendly then preventDefault nothing else nothing)
     else if key event = ''Escape'' then
       (if error state \<noteq> None then call acknowledgeError
        else if document_flag wasCloseRequested state then call cancelExit
        else if document_flag framesBeingRelocated state then call cancelRelocateFrames
        else if document_flag exportSettingsBeingEdited state then call cancelExportAs
        else nothing)
     else nothing)"

definition onKeyDown ::
  "Element option \<Rightarrow> AppState \<Rightarrow> KeyboardEvent \<Rightarrow> js_error + handled" where
  "onKeyDown activeElement state event =
    (case activeElement of
       None \<Rightarrow> Inl TypeError
     | Some element \<Rightarrow>
         (let isActiveElementKeyboardFriendly = (tabIndex element \<noteq> - 1) in
          if tagName element = ''INPUT'' then Inr nothing
          else if ctrlKey event then Inr (onKeyDown_ctrl state event)
          else Inr (onKeyDown_plain isActiveElementKeyboardFriendly state event)))"

section \<open>Commands: the round trip to the backend\<close>

text \<open>
  Modelled from the spec: the type \<^verbatim>\<open>Patch\<close> of \<^verbatim>\<open>@/api/dto\<close>, which is not among the
  sources. A patch is a list of JSON-Patch operations; each has a target path, and a
  value (add, replace, test) or a source path (move, copy, written before the target
  path), both paths JSON pointers.
\<close>

datatype json =
    JNull | JBoolean bool | JNumber int | JString string
  | JArray "json list" | JObject "(string \<times> json) list"

datatype Operation =
    Add string json | Remove string | Replace string json
  | Move string string | Copy string string | Test string json

type_synonym Patch = "Operation list"

text \<open>
  The action \<^verbatim>\<open>patch(patch) { applyPatch(this.$state, patch, false); }\<close>. The function
  \<^verbatim>\<open>applyPatch\<close> belongs to the package \<^verbatim>\<open>fast-json-patch\<close>, which is not part of the
  repository: it is a parameter here. It receives the state, the patch and the flag
  \<^verbatim>\<open>validateOperation\<close>, and its value is the state it leaves behind (it works in place,
  so this is also the state left by a call that throws).
\<close>

definition patch ::
  "(AppState \<Rightarrow> Patch \<Rightarrow> bool \<Rightarrow> AppState) \<Rightarrow> AppState \<Rightarrow> Patch \<Rightarrow> AppState" where
  "patch applyPatch state p = applyPatch state p False"

text \<open>
  Every command of the API has the body
  \<^verbatim>\<open>const appStore = useAppStore(); appStore.patch(await invoke(name, args));\<close>
  The call of \<^verbatim>\<open>invoke\<close> sends the command and the function is suspended at the \<^verbatim>\<open>await\<close>.
  When the promise is fulfilled the function resumes and calls \<^verbatim>\<open>patch\<close> with the
  value; when it is rejected the \<^verbatim>\<open>await\<close> throws, no handler catches it, and the function
  ends without calling \<^verbatim>\<open>patch\<close>.

  The event loop is modelled by its events: a command is called, or the promise of an
  earlier \<^verbatim>\<open>invoke\<close> is settled by the backend. Invocations are numbered in the order of
  their calls. The gateway records the store, the suspended functions, the number of
  invocations so far and the calls of \<^verbatim>\<open>patch\<close> made so far (oldest first). A promise is
  settled at most once: settling a ticket that is not suspended does nothing.
  (\<^verbatim>\<open>getState\<close>, which assigns a full snapshot, is not part of this model.)
\<close>

datatype settlement = Fulfilled Patch | Rejected string

datatype loop_event = Call string "(string \<times> json) list" | Settle nat settlement

record CommandGateway =
  appStore :: AppState
  suspended :: "(nat \<times> string) list"
  invoked :: nat
  patched :: "(nat \<times> Patch) list"

definition resume ::
  "(AppState \<Rightarrow> Patch \<Rightarrow> bool \<Rightarrow> AppState) \<Rightarrow> CommandGateway \<Rightarrow> nat \<Rightarrow> settlement
     \<Rightarrow> CommandGateway" where
  "resume applyPatch g ticket outcome =
     (case outcome of
        Rejected reason \<Rightarrow> g
      | Fulfilled p \<Rightarrow>
          g\<lparr>appStore := patch applyPatch (appStore g) p,
            patched := patched g @ [(ticket, p)]\<rparr>)"

definition gateway_step ::
  "(AppState \<Rightarrow> Patch \<Rightarrow> bool \<Rightarrow> AppState) \<Rightarrow> CommandGateway \<Rightarrow> loop_event
     \<Rightarrow> CommandGateway" where
  "gateway_step applyPatch g ev =
     (case ev of
        Call command args \<Rightarrow>
          g\<lparr>suspended := suspended g @ [(invoked g, command)], invoked := Suc (invoked g)\<rparr>
      | Settle ticket outcome \<Rightarrow>
          (case map_of (suspended g) ticket of
             None \<Rightarrow> g
           | Some command \<Rightarrow>
               resume applyPatch
                 (g\<lparr>suspended := filter (\<lambda>(t, c). t \<noteq> ticket) (suspended g)\<rparr>)
                 ticket outcome))"

definition run ::
  "(AppState \<Rightarrow> Patch \<Rightarrow> bool \<Rightarrow> AppState) \<Rightarrow> CommandGateway \<Rightarrow> loop_event list
     \<Rightarrow> CommandGateway" where
  "run applyPatch g evs = foldl (gateway_step applyPatch) g evs"

definition idle_gateway :: "AppState \<Rightarrow> CommandGateway" where
  "idle_gateway state = \<lparr>appStore = state, suspended = [], invoked = 0, patched = []\<rparr>"

text \<open>The fulfilled responses of a run of events, in the order in which they arrive.\<close>

fun fulfilments :: "loop_event list \<Rightarrow> (nat \<times> Patch) list" where
  "fulfilments [] = []"
| "fulfilments (Settle ticket (Fulfilled p) # evs) = (ticket, p) # fulfilments evs"
| "fulfilments (ev # evs) = fulfilments evs"

text \<open>
  A run of events in which the backend answers only invocations that are waiting for their
  answer, given the waiting tickets and the number of the next invocation.
\<close>

fun answers_pending :: "nat list \<Rightarrow> nat \<Rightarrow> loop_event list \<Rightarrow> bool" where
  "answers_pending pending n [] = True"
| "answers_pending pending n (Call command args # evs) =
     answers_pending (pending @ [n]) (Suc n) evs"
| "answers_pending pending n (Settle ticket outcome # evs) =
     (ticket \<in> set pending \<and> answers_pending (removeAll ticket pending) n evs)"

section \<open>Example states\<close>

text \<open>
  A sheet with three animations, one of them with two directions, opened as the current
  document; and a second document in which only a frame is selected.
\<close>

definition walk_north :: Sequence where
  "walk_north = \<lparr>keyframes =
     [\<lparr>frame = ''n0.png'',
       hitboxes = [\<lparr>Hitbox.selected = False\<rparr>, \<lparr>Hitbox.selected = True\<rparr>],
       selected = False\<rparr>,
      \<lparr>frame = ''n1.png'', hitboxes = [], selected = True\<rparr>]\<rparr>"

definition walk_south :: Sequence where
  "walk_south = \<lparr>keyframes =
     [\<lparr>frame = ''s0.png'', hitboxes = [], selected = True\<rparr>,
      \<lparr>frame = ''s1.png'', hitboxes = [], selected = False\<rparr>]\<rparr>"

definition walk :: Animation where
  "walk = \<lparr>name = js ''Walk'', selected = False,
            sequences = [(js ''North'', walk_north), (js ''South'', walk_south)]\<rparr>"

definition attack :: Animation where
  "attack = \<lparr>name = js ''attack'', selected = True, sequences = []\<rparr>"

definition jump :: Animation where
  "jump = \<lparr>name = js ''Jump'', selected = False, sequences = []\<rparr>"

definition hero_sheet :: Sheet where
  "hero_sheet =
     \<lparr>frames = [\<lparr>Frame.path = ''n0.png'', selected = True\<rparr>,
                \<lparr>Frame.path = ''n1.png'', selected = False\<rparr>],
      animations = [(js ''Walk'', walk), (js ''attack'', attack), (js ''Jump'', jump)]\<rparr>"

definition hero :: Document where
  "hero = \<lparr>Document.path = ''hero.tiger'', sheet = hero_sheet,
            currentAnimationName = Some (js ''Walk''),
            currentSequenceDirection = Some (js ''North''),
            currentKeyframeIndex = Some 0, timelineIsPlaying = False,
            wasCloseRequested = False, framesBeingRelocated = False,
            exportSettingsBeingEdited = False\<rparr>"

definition hero_open :: AppState where
  "hero_open = \<lparr>documents = [hero], currentDocumentPath = Some ''hero.tiger'',
                 recentDocumentPaths = [], clipboardManifest = None, isReleaseBuild = False,
                 error = None\<rparr>"

definition tiles :: Document where
  "tiles = \<lparr>Document.path = ''tiles.tiger'',
             sheet = \<lparr>frames = [\<lparr>Frame.path = ''grass.png'', selected = True\<rparr>],
                      animations =
                        [(js ''Idle'', \<lparr>name = js ''Idle'', selected = False,
                                       sequences = [(js ''East'', \<lparr>keyframes = []\<rparr>)]\<rparr>)]\<rparr>,
             currentAnimationName = None, currentSequenceDirection = None,
             currentKeyframeIndex = None, timelineIsPlaying = False,
             wasCloseRequested = False, framesBeingRelocated = False,
             exportSettingsBeingEdited = False\<rparr>"

definition tiles_open :: AppState where
  "tiles_open = \<lparr>documents = [hero, tiles], currentDocumentPath = Some ''tiles.tiger'',
                  recentDocumentPaths = [], clipboardManifest = None, isReleaseBuild = False,
                  error = None\<rparr>"



text \<open>
  The document \<^verbatim>\<open>hero\<close> with a pending close request, in a state that also shows an error.
\<close>

definition closing_with_error :: AppState where
  "closing_with_error =
     \<lparr>documents = [hero\<lparr>wasCloseRequested := True\<rparr>],
      currentDocumentPath = Some ''hero.tiger'',
      recentDocumentPaths = [], clipboardManifest = None, isReleaseBuild = False,
      error = Some \<lparr>summary = ''The document could not be saved''\<rparr>\<rparr>"

text \<open>Focused elements and key events.\<close>

definition text_field :: Element where
  "text_field = \<lparr>tagName = ''INPUT'', tabIndex = 0\<rparr>"

definition text_area :: Element where
  "text_area = \<lparr>tagName = ''TEXTAREA'', tabIndex = - 1\<rparr>"

definition page_body :: Element where
  "page_body = \<lparr>tagName = ''BODY'', tabIndex = - 1\<rparr>"

definition press :: "string \<Rightarrow> KeyboardEvent" where
  "press k = \<lparr>key = k, ctrlKey = False, altKey = False, shiftKey = False\<rparr>"

definition press_ctrl :: "string \<Rightarrow> KeyboardEvent" where
  "press_ctrl k = \<lparr>key = k, ctrlKey = True, altKey = False, shiftKey = False\<rparr>"

text \<open>
  Two patches, and an interpreter of the root-level replacements they use, which stands
  for \<^verbatim>\<open>applyPatch\<close> in the examples (the theorems hold for every interpreter).
\<close>

definition undo_patch :: Patch where
  "undo_patch = [Replace ''/currentDocumentPath'' (JString ''tiles.tiger'')]"

definition redo_patch :: Patch where
  "redo_patch = [Replace ''/currentDocumentPath'' (JString ''hero.tiger'')]"

fun applyPatch_example :: "AppState \<Rightarrow> Patch \<Rightarrow> bool \<Rightarrow> AppState" where
  "applyPatch_example state [] validate = state"
| "applyPatch_example state (Replace p v # ops) validate =
     applyPatch_example
       (if p = ''/currentDocumentPath'' then
          (case v of
             JString s \<Rightarrow> state\<lparr>currentDocumentPath := Some s\<rparr>
           | JNull \<Rightarrow> state\<lparr>currentDocumentPath := None\<rparr>
           | _ \<Rightarrow> state)
        else if p = ''/isReleaseBuild'' then
          (case v of JBoolean b \<Rightarrow> state\<lparr>isReleaseBuild := b\<rparr> | _ \<Rightarrow> state)
        else state)
       ops validate"
| "applyPatch_example state (operation # ops) validate = applyPatch_example state ops validate"

section \<open>Helper lemmas\<close>




lemma run_Nil: "run ap g [] = g"
  by (simp add: run_def)

lemma run_Cons: "run ap g (ev # evs) = run ap (gateway_step ap g ev) evs"
  by (simp add: run_def)

lemma map_fst_filter_ticket:
  "map fst (filter (\<lambda>(t, c). t \<noteq> ticket) xs) = removeAll ticket (map fst xs)"
  by (induction xs) auto

lemma map_of_suspended:
  "ticket \<in> set (map fst xs) \<Longrightarrow> \<exists>c. map_of xs ticket = Some c"
  by (induction xs) auto

lemma filter_absent_ticket:
  "map_of xs ticket = None \<Longrightarrow> filter (\<lambda>(t, c). t \<noteq> ticket) xs = xs"
  by (induction xs) (auto split: if_splits)

lemma step_Call:
  "gateway_step ap g (Call command args) =
     g\<lparr>suspended := suspended g @ [(invoked g, command)], invoked := Suc (invoked g)\<rparr>"
  by (simp add: gateway_step_def)

lemma step_Rejected:
  "gateway_step ap g (Settle ticket (Rejected reason)) =
     g\<lparr>suspended := filter (\<lambda>(t, c). t \<noteq> ticket) (suspended g)\<rparr>"
proof (cases "map_of (suspended g) ticket")
  case None
  then show ?thesis
    by (simp add: gateway_step_def filter_absent_ticket)
next
  case (Some command)
  then show ?thesis
    by (simp add: gateway_step_def resume_def)
qed

lemma step_Fulfilled:
  "ticket \<in> set (map fst (suspended g)) \<Longrightarrow>
   gateway_step ap g (Settle ticket (Fulfilled p)) =
     g\<lparr>suspended := filter (\<lambda>(t, c). t \<noteq> ticket) (suspended g),
       appStore := patch ap (appStore g) p,
       patched := patched g @ [(ticket, p)]\<rparr>"
  using map_of_suspended [of ticket "suspended g"]
  by (auto simp: gateway_step_def resume_def)

lemma run_pending:
  "answers_pending (map fst (suspended g)) (invoked g) evs \<Longrightarrow>
   patched (run ap g evs) = patched g @ fulfilments evs \<and>
   appStore (run ap g evs) = foldl (patch ap) (appStore g) (map snd (fulfilments evs))"
proof (induction evs arbitrary: g)
  case Nil
  then show ?case by (simp add: run_Nil)
next
  case (Cons ev evs)
  show ?case
  proof (cases ev)
    case (Call command args)
    with Cons.prems
    have "answers_pending (map fst (suspended (gateway_step ap g ev)))
            (invoked (gateway_step ap g ev)) evs"
      by (simp add: step_Call)
    from Cons.IH [OF this] Call show ?thesis by (simp add: run_Cons step_Call)
  next
    case (Settle ticket outcome)
    with Cons.prems have t: "ticket \<in> set (map fst (suspended g))"
      and rest: "answers_pending (removeAll ticket (map fst (suspended g))) (invoked g) evs"
      by simp_all
    show ?thesis
    proof (cases outcome)
      case (Fulfilled p)
      have "answers_pending (map fst (suspended (gateway_step ap g ev)))
              (invoked (gateway_step ap g ev)) evs"
        using rest t by (simp add: Settle Fulfilled step_Fulfilled map_fst_filter_ticket)
      from Cons.IH [OF this] show ?thesis
        using t by (simp add: run_Cons Settle Fulfilled step_Fulfilled)
    next
      case (Rejected reason)
      have "answers_pending (map fst (suspended (gateway_step ap g ev)))
              (invoked (gateway_step ap g ev)) evs"
        using rest by (simp add: Settle Rejected step_Rejected map_fst_filter_ticket)
      from Cons.IH [OF this] show ?thesis
        by (simp add: run_Cons Settle Rejected step_Rejected)
    qed
  qed
qed

section \<open>Derived views\<close>

text \<open>
  C10. A \<^verbatim>\<open>currentKeyframeIndex\<close> of 0 counts as present: in every state with a current
  sequence whose keyframe list is not empty and whose current document has
  \<^verbatim>\<open>currentKeyframeIndex\<close> 0, \<^verbatim>\<open>currentKeyframe\<close> is the first keyframe of the current
  sequence (the getter compares the index with \<^verbatim>\<open>!= null\<close>, it does not test it for
  truthiness).
\<close>

theorem currentKeyframe_index_zero:
  assumes "currentSequence state = Inr (Found sequence)"
    and "keyframes sequence \<noteq> []"
    and "currentDocument state = Some document"
    and "currentKeyframeIndex document = Some 0"
  shows "currentKeyframe state = Inr (Some (hd (keyframes sequence)))"
  using assms
  by (simp add: currentKeyframe_def current_index_def array_get_def hd_conv_nth)

theorem currentKeyframe_index_zero_witness:
  "currentSequence hero_open = Inr (Found walk_north) \<and> keyframes walk_north \<noteq> [] \<and>
   currentDocument hero_open = Some hero \<and> currentKeyframeIndex hero = Some 0 \<and>
   currentKeyframe hero_open = Inr (Some (hd (keyframes walk_north)))"
proof -
  have s: "currentSequence hero_open = Inr (Found walk_north)" by code_simp
  have k: "keyframes walk_north \<noteq> []" by code_simp
  have d: "currentDocument hero_open = Some hero" by code_simp
  have i: "currentKeyframeIndex hero = Some 0" by code_simp
  show ?thesis using s k d i currentKeyframe_index_zero [OF s k d i] by simp
qed





section \<open>Keyboard input\<close>

text \<open>
  C9. While the focused element is an \<^verbatim>\<open>INPUT\<close> element the handler calls no command and
  does not prevent the default action, whatever the key and the modifiers: shortcuts with
  the control key, Delete and Escape included.
\<close>

theorem input_focus_dispatches_nothing:
  "tagName element = ''INPUT'' \<Longrightarrow>
   onKeyDown (Some element) state event = Inr \<lparr>calls = [], defaultPrevented = False\<rparr>"
  by (simp add: onKeyDown_def nothing_def)

theorem input_focus_dispatches_nothing_witness:
  "tagName text_field = ''INPUT'' \<and>
   onKeyDown (Some text_field) closing_with_error (press_ctrl ''z'') =
     Inr \<lparr>calls = [], defaultPrevented = False\<rparr> \<and>
   onKeyDown (Some text_field) closing_with_error (press ''Delete'') =
     Inr \<lparr>calls = [], defaultPrevented = False\<rparr> \<and>
   onKeyDown (Some page_body) closing_with_error (press_ctrl ''z'') =
     Inr \<lparr>calls = [undo], defaultPrevented = True\<rparr>"
proof -
  have t: "tagName text_field = ''INPUT''" by code_simp
  have b: "onKeyDown (Some page_body) closing_with_error (press_ctrl ''z'') =
     Inr \<lparr>calls = [undo], defaultPrevented = True\<rparr>" by code_simp
  show ?thesis
    using t b input_focus_dispatches_nothing [OF t, of closing_with_error "press_ctrl ''z''"]
      input_focus_dispatches_nothing [OF t, of closing_with_error "press ''Delete''"]
    by simp
qed

text \<open>
  C7, as the handler has it. A key event without the control key whose key is a single
  character calls no command and is left untouched whenever the focused element is an
  \<^verbatim>\<open>INPUT\<close> element (the one text-entry control the handler recognises), or has a
  \<^verbatim>\<open>tabIndex\<close> other than -1, or the character is not the space; so \<^verbatim>\<open>a\<close> typed into a
  text field never selects all.
\<close>

theorem character_keys_pass_through:
  assumes "\<not> ctrlKey event"
    and "length (key event) = 1"
    and "tagName element = ''INPUT'' \<or> tabIndex element \<noteq> - 1 \<or> key event \<noteq> '' ''"
  shows "onKeyDown (Some element) state event = Inr \<lparr>calls = [], defaultPrevented = False\<rparr>"
proof -
  from assms(2) obtain c where c: "key event = [c]"
    by (cases "key event") auto
  show ?thesis
    using assms(1,3) by (auto simp: onKeyDown_def onKeyDown_plain_def nothing_def c)
qed

theorem character_keys_pass_through_witness:
  "\<not> ctrlKey (press ''a'') \<and> length (key (press ''a'')) = 1 \<and>
   tagName text_field = ''INPUT'' \<and>
   onKeyDown (Some text_field) hero_open (press ''a'') =
     Inr \<lparr>calls = [], defaultPrevented = False\<rparr> \<and>
   onKeyDown (Some page_body) hero_open (press_ctrl ''a'') =
     Inr \<lparr>calls = [selectAll], defaultPrevented = False\<rparr>"
proof -
  have c: "\<not> ctrlKey (press ''a'')" by code_simp
  have l: "length (key (press ''a'')) = 1" by code_simp
  have t: "tagName text_field = ''INPUT''" by code_simp
  have b: "onKeyDown (Some page_body) hero_open (press_ctrl ''a'') =
     Inr \<lparr>calls = [selectAll], defaultPrevented = False\<rparr>" by code_simp
  from t have f: "tagName text_field = ''INPUT'' \<or> tabIndex text_field \<noteq> - 1 \<or>
      key (press ''a'') \<noteq> '' ''"
    by simp
  show ?thesis
    using c l t b character_keys_pass_through [OF c l f, of hero_open] by simp
qed

text \<open>
  C7 as stated, for every text-entry control, fails for the space typed into a text area
  whose \<^verbatim>\<open>tabIndex\<close> is -1: the guard of the handler looks for the tag name \<^verbatim>\<open>INPUT\<close>
  only, so the key starts the playback and its default action is prevented.
\<close>

theorem space_in_text_area_counterexample:
  "tagName text_area = ''TEXTAREA'' \<and> tabIndex text_area = - 1 \<and>
   \<not> ctrlKey (press '' '') \<and> \<not> altKey (press '' '') \<and> \<not> shiftKey (press '' '') \<and>
   length (key (press '' '')) = 1 \<and>
   onKeyDown (Some text_area) hero_open (press '' '') =
     Inr \<lparr>calls = [play], defaultPrevented = True\<rparr>"
  by code_simp

text \<open>
  C6, as the handler has it. For an Escape key event without the control key, while the
  focused element is not an \<^verbatim>\<open>INPUT\<close> element, exactly the first matching condition is
  acted on, in this order: acknowledge the current error if there is one; else cancel a
  pending close request; else cancel a frame relocation in progress; else cancel an edit
  of the export settings in progress; and nothing is called if none applies. With an error
  and a pending close request at once, only \<^verbatim>\<open>acknowledgeError\<close> is called.
\<close>

theorem escape_priority:
  assumes "tagName element \<noteq> ''INPUT''" and "\<not> ctrlKey event" and "key event = ''Escape''"
  shows "\<exists>h. onKeyDown (Some element) state event = Inr h \<and> \<not> defaultPrevented h \<and>
     (error state \<noteq> None \<longrightarrow> calls h = [acknowledgeError]) \<and>
     (error state = None \<and> document_flag wasCloseRequested state \<longrightarrow> calls h = [cancelExit]) \<and>
     (error state = None \<and> \<not> document_flag wasCloseRequested state \<and>
        document_flag framesBeingRelocated state \<longrightarrow> calls h = [cancelRelocateFrames]) \<and>
     (error state = None \<and> \<not> document_flag wasCloseRequested state \<and>
        \<not> document_flag framesBeingRelocated state \<and>
        document_flag exportSettingsBeingEdited state \<longrightarrow> calls h = [cancelExportAs]) \<and>
     (error state = None \<and> \<not> document_flag wasCloseRequested state \<and>
        \<not> document_flag framesBeingRelocated state \<and>
        \<not> document_flag exportSettingsBeingEdited state \<longrightarrow> calls h = [])"
  using assms by (simp add: onKeyDown_def onKeyDown_plain_def nothing_def call_def)

theorem escape_priority_witness:
  "tagName page_body \<noteq> ''INPUT'' \<and> \<not> ctrlKey (press ''Escape'') \<and>
   key (press ''Escape'') = ''Escape'' \<and>
   error closing_with_error \<noteq> None \<and> document_flag wasCloseRequested closing_with_error \<and>
   onKeyDown (Some page_body) closing_with_error (press ''Escape'') =
     Inr \<lparr>calls = [acknowledgeError], defaultPrevented = False\<rparr>"
proof -
  have t: "tagName page_body \<noteq> ''INPUT''" by code_simp
  have c: "\<not> ctrlKey (press ''Escape'')" by code_simp
  have k: "key (press ''Escape'') = ''Escape''" by code_simp
  have e: "error closing_with_error \<noteq> None" by code_simp
  have w: "document_flag wasCloseRequested closing_with_error" by code_simp
  from escape_priority [OF t c k, of closing_with_error] e
  obtain h where "onKeyDown (Some page_body) closing_with_error (press ''Escape'') = Inr h"
    and "\<not> defaultPrevented h" and "calls h = [acknowledgeError]"
    by blast
  then have "onKeyDown (Some page_body) closing_with_error (press ''Escape'') =
     Inr \<lparr>calls = [acknowledgeError], defaultPrevented = False\<rparr>"
    by (cases h) simp
  with t c k e w show ?thesis by simp
qed

text \<open>
  C6 as stated, for every Escape key event, fails while a text field has the focus: with
  an error shown and a close request pending, Escape calls nothing.
\<close>

theorem escape_in_text_field_counterexample:
  "\<not> ctrlKey (press ''Escape'') \<and> \<not> altKey (press ''Escape'') \<and>
   \<not> shiftKey (press ''Escape'') \<and> key (press ''Escape'') = ''Escape'' \<and>
   error closing_with_error = Some \<lparr>summary = ''The document could not be saved''\<rparr> \<and>
   onKeyDown (Some text_field) closing_with_error (press ''Escape'') =
     Inr \<lparr>calls = [], defaultPrevented = False\<rparr>"
  by code_simp

section \<open>Commands and their patches\<close>

text \<open>
  C1, as the code has it. The patches are applied to the store in the order in which the
  responses of the backend arrive: in a run of events in which the backend answers
  waiting invocations, the calls of \<^verbatim>\<open>patch\<close> are the fulfilled responses in their order
  of arrival. So for commands A and B called in that order without awaiting A, the patch
  of A is applied before the patch of B when the response of A arrives first.
\<close>

theorem patches_applied_in_resolution_order:
  assumes "answers_pending (map fst (suspended g)) (invoked g) evs"
  shows "patched (run applyPatch g evs) = patched g @ fulfilments evs"
  using run_pending [OF assms] by simp

theorem patches_applied_in_resolution_order_witness:
  "answers_pending (map fst (suspended (idle_gateway tiles_open)))
     (invoked (idle_gateway tiles_open))
     [Call ''undo'' [], Call ''redo'' [],
      Settle 0 (Fulfilled undo_patch), Settle 1 (Fulfilled redo_patch)] \<and>
   patched (run applyPatch_example (idle_gateway tiles_open)
     [Call ''undo'' [], Call ''redo'' [],
      Settle 0 (Fulfilled undo_patch), Settle 1 (Fulfilled redo_patch)]) =
     [(0, undo_patch), (1, redo_patch)]"
proof -
  have a: "answers_pending (map fst (suspended (idle_gateway tiles_open)))
     (invoked (idle_gateway tiles_open))
     [Call ''undo'' [], Call ''redo'' [],
      Settle 0 (Fulfilled undo_patch), Settle 1 (Fulfilled redo_patch)]"
    by code_simp
  have i: "patched (idle_gateway tiles_open) = []" by code_simp
  show ?thesis
    using a i patches_applied_in_resolution_order [OF a, of applyPatch_example] by simp
qed

text \<open>
  C1 as stated fails: \<^verbatim>\<open>undo\<close> and \<^verbatim>\<open>redo\<close> are called in that order, the response of
  \<^verbatim>\<open>redo\<close> arrives first, and its patch is applied before the patch of \<^verbatim>\<open>undo\<close>; the
  store ends with the state that the patch of \<^verbatim>\<open>undo\<close> leaves.
\<close>

theorem issuance_order_counterexample:
  "patched (run applyPatch_example (idle_gateway tiles_open)
     [Call ''undo'' [], Call ''redo'' [],
      Settle 1 (Fulfilled redo_patch), Settle 0 (Fulfilled undo_patch)]) =
     [(1, redo_patch), (0, undo_patch)] \<and>
   currentDocumentPath (appStore (run applyPatch_example (idle_gateway tiles_open)
     [Call ''undo'' [], Call ''redo'' [],
      Settle 1 (Fulfilled redo_patch), Settle 0 (Fulfilled undo_patch)])) = Some ''tiles.tiger''"
  by code_simp

text \<open>
  C3, as the code has it. When the round trip of a command is rejected, no patch is
  applied and the state is unchanged, its error slot included (no handler of the frontend
  catches the rejection). When it is fulfilled, the returned patch is applied exactly once:
  the store becomes what \<^verbatim>\<open>applyPatch\<close> makes of it, one call of \<^verbatim>\<open>patch\<close> is recorded,
  and the invocation is no longer waiting. Over a run of events the store is the result
  of applying the patches of the fulfilled responses, once each, in their order of arrival.
\<close>

theorem round_trip_outcome:
  "(appStore (gateway_step applyPatch g (Settle ticket (Rejected reason))) = appStore g \<and>
    patched (gateway_step applyPatch g (Settle ticket (Rejected reason))) = patched g) \<and>
   (ticket \<in> set (map fst (suspended g)) \<longrightarrow>
      appStore (gateway_step applyPatch g (Settle ticket (Fulfilled p))) =
        applyPatch (appStore g) p False \<and>
      patched (gateway_step applyPatch g (Settle ticket (Fulfilled p))) =
        patched g @ [(ticket, p)] \<and>
      ticket \<notin> set (map fst (suspended (gateway_step applyPatch g (Settle ticket (Fulfilled p)))))) \<and>
   (answers_pending (map fst (suspended g)) (invoked g) evs \<longrightarrow>
      appStore (run applyPatch g evs) =
        foldl (\<lambda>state p. applyPatch state p False) (appStore g) (map snd (fulfilments evs)))"
proof -
  have "patch applyPatch = (\<lambda>state p. applyPatch state p False)"
    by (simp add: patch_def fun_eq_iff)
  then show ?thesis
    using run_pending [of g evs applyPatch]
    by (auto simp: step_Rejected step_Fulfilled map_fst_filter_ticket patch_def)
qed

theorem round_trip_outcome_witness:
  "answers_pending (map fst (suspended (idle_gateway tiles_open)))
     (invoked (idle_gateway tiles_open))
     [Call ''undo'' [], Call ''redo'' [],
      Settle 0 (Rejected ''backend failure''), Settle 1 (Fulfilled redo_patch)] \<and>
   appStore (run applyPatch_example (idle_gateway tiles_open)
     [Call ''undo'' [], Call ''redo'' [],
      Settle 0 (Rejected ''backend failure''), Settle 1 (Fulfilled redo_patch)]) =
     tiles_open\<lparr>currentDocumentPath := Some ''hero.tiger''\<rparr>"
proof -
  have a: "answers_pending (map fst (suspended (idle_gateway tiles_open)))
     (invoked (idle_gateway tiles_open))
     [Call ''undo'' [], Call ''redo'' [],
      Settle 0 (Rejected ''backend failure''), Settle 1 (Fulfilled redo_patch)]"
    by code_simp
  have f: "foldl (\<lambda>state p. applyPatch_example state p False)
             (appStore (idle_gateway tiles_open))
             (map snd (fulfilments [Call ''undo'' [], Call ''redo'' [],
                Settle 0 (Rejected ''backend failure''), Settle 1 (Fulfilled redo_patch)])) =
           tiles_open\<lparr>currentDocumentPath := Some ''hero.tiger''\<rparr>"
    by code_simp
  show ?thesis
    using a f round_trip_outcome [of applyPatch_example "idle_gateway tiles_open" 0
        "''backend failure''" redo_patch
        "[Call ''undo'' [], Call ''redo'' [],
          Settle 0 (Rejected ''backend failure''), Settle 1 (Fulfilled redo_patch)]"]
    by simp
qed

text \<open>
  C3 as stated fails in its second part: after a rejected \<^verbatim>\<open>undo\<close> the error slot is still
  empty, and the gateway is as before but for the count of invocations.
\<close>

theorem rejection_sets_no_error_counterexample:
  "error (appStore (run applyPatch_example (idle_gateway tiles_open)
      [Call ''undo'' [], Settle 0 (Rejected ''backend failure'')])) = None \<and>
   run applyPatch_example (idle_gateway tiles_open)
      [Call ''undo'' [], Settle 0 (Rejected ''backend failure'')] =
     \<lparr>appStore = tiles_open, suspended = [], invoked = 1, patched = []\<rparr>"
  by code_simp

end
